theory Spec2Isabelle
  imports Complex_Main
begin

section \<open>Values and built-in operations of the Python runtime\<close>

text \<open>
  The endpoints of \<^verbatim>\<open>backend/server.py\<close> work on what \<^verbatim>\<open>request.get_json()\<close> and the
  collaborators hand them: values decoded from JSON. A dictionary is an association list
  read with \<open>map_of\<close>; the decoder never produces a key twice. A float that is NaN or
  infinite behaves, in every operation used below, like any other non-zero float.
\<close>

datatype json =
    JNull
  | JBool bool
  | JInt int
  | JFloat real
  | JStr string
  | JArr "json list"
  | JObj "(string \<times> json) list"

text \<open>
  Exceptions are instances of \<^verbatim>\<open>Exception\<close>, the class every handler of the file
  catches. \<open>RuntimeError\<close> stands for that class and its subclasses, which is what the
  clause \<^verbatim>\<open>except RuntimeError\<close> selects; \<open>str(e)\<close> is \<open>exn_msg e\<close>. The messages of
  the errors the runtime raises itself are abbreviated; no property below depends on them.
\<close>

datatype exn_kind =
    RuntimeError | AttributeError | TypeError | ValueError | KeyError | IndexError
  | OtherException

datatype py_exn = PyExn (exn_kind: exn_kind) (exn_msg: string)

text \<open>Truth value of a value, as \<^verbatim>\<open>not x\<close> and \<^verbatim>\<open>x if c else y\<close> test it.\<close>

fun py_truthy :: "json \<Rightarrow> bool" where
  "py_truthy JNull = False"
| "py_truthy (JBool b) = b"
| "py_truthy (JInt i) = (i \<noteq> 0)"
| "py_truthy (JFloat r) = (r \<noteq> 0)"
| "py_truthy (JStr s) = (s \<noteq> [])"
| "py_truthy (JArr xs) = (xs \<noteq> [])"
| "py_truthy (JObj kvs) = (kvs \<noteq> [])"

text \<open>\<^verbatim>\<open>len(x)\<close>: defined on strings, lists and dictionaries, a TypeError elsewhere.\<close>

fun py_len :: "json \<Rightarrow> py_exn + nat" where
  "py_len (JStr s) = Inr (length s)"
| "py_len (JArr xs) = Inr (length xs)"
| "py_len (JObj kvs) = Inr (length kvs)"
| "py_len v = Inl (PyExn TypeError ''object has no len()'')"

text \<open>\<^verbatim>\<open>x.get(key, default)\<close>: only a dictionary has the method.\<close>

fun py_get :: "json \<Rightarrow> string \<Rightarrow> json \<Rightarrow> py_exn + json" where
  "py_get (JObj kvs) k d = Inr (case map_of kvs k of None \<Rightarrow> d | Some v \<Rightarrow> v)"
| "py_get v k d = Inl (PyExn AttributeError ''object has no attribute get'')"

text \<open>Whether \<open>p\<close> occurs in \<open>s\<close> as a contiguous run: \<^verbatim>\<open>p in s\<close> on two strings.\<close>

fun starts_with :: "string \<Rightarrow> string \<Rightarrow> bool" where
  "starts_with [] s = True"
| "starts_with (c # p) [] = False"
| "starts_with (c # p) (d # s) = (c = d \<and> starts_with p s)"

fun substring_of :: "string \<Rightarrow> string \<Rightarrow> bool" where
  "substring_of p [] = (p = [])"
| "substring_of p (d # s) = (starts_with p (d # s) \<or> substring_of p s)"

text \<open>
  \<^verbatim>\<open>key in x\<close> for a string \<open>key\<close>: key membership in a dictionary, element membership
  in a list (a string equals only a string), substring test in a string, a TypeError on
  a value that is not iterable.
\<close>

fun py_contains :: "string \<Rightarrow> json \<Rightarrow> py_exn + bool" where
  "py_contains k (JObj kvs) = Inr (map_of kvs k \<noteq> None)"
| "py_contains k (JArr xs) = Inr (JStr k \<in> set xs)"
| "py_contains k (JStr s) = Inr (substring_of k s)"
| "py_contains k v = Inl (PyExn TypeError ''argument is not iterable'')"

text \<open>\<^verbatim>\<open>x[key]\<close> for a string \<open>key\<close>: only a dictionary can be indexed by a string.\<close>

fun py_subscript :: "json \<Rightarrow> string \<Rightarrow> py_exn + json" where
  "py_subscript (JObj kvs) k =
     (case map_of kvs k of None \<Rightarrow> Inl (PyExn KeyError k) | Some v \<Rightarrow> Inr v)"
| "py_subscript (JArr xs) k = Inl (PyExn TypeError ''list indices must be integers or slices, not str'')"
| "py_subscript (JStr s) k = Inl (PyExn TypeError ''string indices must be integers'')"
| "py_subscript v k = Inl (PyExn TypeError ''object is not subscriptable'')"

text \<open>
  Two built-ins are not written out. \<^verbatim>\<open>int(s)\<close> on a string and \<^verbatim>\<open>s.strip()\<close> follow the
  interpreter's tables of whitespace and digits; wherever a view calls them, the model
  takes them as the parameters \<open>py_int\<close> (the integer read, or the error raised) and
  \<open>py_strip\<close>, so that every property below holds of the interpreter's own functions.
\<close>

section \<open>HTTP responses\<close>

text \<open>
  A view returns \<^verbatim>\<open>jsonify(d)\<close> (status 200) or \<^verbatim>\<open>jsonify(d), code\<close>. The bodies the
  file builds are these; a formatted string \<^verbatim>\<open>f"... {x}"\<close> is kept as the value \<open>x\<close> it
  interpolates.
  \<^item> \<open>ErrorBody v\<close>: \<^verbatim>\<open>{"error": v}\<close>
  \<^item> \<open>InternalError p e\<close>: \<^verbatim>\<open>{"error": f"<p>{str(e)}"}\<close>
  \<^item> \<open>SaveChatOk name record_id n\<close>: \<^verbatim>\<open>{"success": True, "message": f"Chat history saved
    successfully for {name}", "record_id": record_id, "message_count": n}\<close>
  \<^item> \<open>GetChatsOk chats n\<close>: \<^verbatim>\<open>{"success": True, "chats": chats, "count": n}\<close>
  \<^item> \<open>ExtractOk name company\<close>: \<^verbatim>\<open>{"success": True, "name": name, "company": company}\<close>
  \<^item> \<open>SaveConversationOk name company n record_id\<close>: \<^verbatim>\<open>{"success": True, "name": name,
    "company": company, "message_count": n, "record_id": record_id}\<close>
\<close>

datatype body =
    ErrorBody json
  | InternalError string py_exn
  | SaveChatOk json json nat
  | GetChatsOk json nat
  | ExtractOk json json
  | SaveConversationOk json json nat json

record response =
  status :: nat
  body :: body

fun success :: "body \<Rightarrow> bool" where
  "success (ErrorBody v) = False"
| "success (InternalError p e) = False"
| "success b = True"

definition respond :: "nat \<Rightarrow> body \<Rightarrow> response" where
  "respond code b = \<lparr>status = code, body = b\<rparr>"

section \<open>The storage collaborator\<close>

text \<open>
  \<^verbatim>\<open>get_supabase_client()\<close> returns the storage client or raises. Its two methods belong
  to the collaborator, so they are parameters: each sees the collaborator's state \<open>'s\<close>, the
  write may change it, and each returns a value or raises.
\<close>

record 's supabase_client =
  save_chat_history :: "'s \<Rightarrow> json \<Rightarrow> json \<Rightarrow> json \<Rightarrow> (py_exn + json) \<times> 's"
  get_chat_history :: "'s \<Rightarrow> string option \<Rightarrow> string option \<Rightarrow> int \<Rightarrow> py_exn + json"

text \<open>
  Storage doubles for the concrete runs below. \<open>memory_client\<close> keeps the records in a
  list and numbers them; \<open>rejecting_client\<close> stores nothing and reports the failure in its
  result, the way \<^verbatim>\<open>save_chat\<close> expects (\<^verbatim>\<open>"error" in result\<close>); \<open>flaky_client\<close> raises on
  its first write and stores from the second on, its state being the number of writes
  attempted.
\<close>

definition memory_client :: "json list supabase_client" where
  "memory_client =
     \<lparr>save_chat_history = (\<lambda>st name company_name chat_history.
         (Inr (JObj [(''id'', JInt (int (length st) + 1))]),
          st @ [JObj [(''name'', name), (''company_name'', company_name),
                      (''chat_history'', chat_history)]])),
      get_chat_history = (\<lambda>st name company_name limit. Inr (JArr (take (nat limit) (rev st))))\<rparr>"

definition rejecting_client :: "json list supabase_client" where
  "rejecting_client =
     \<lparr>save_chat_history = (\<lambda>st name company_name chat_history.
         (Inr (JObj [(''error'', JStr ''insert failed'')]), st)),
      get_chat_history = (\<lambda>st name company_name limit. Inr (JArr (take (nat limit) (rev st))))\<rparr>"

definition flaky_client :: "nat supabase_client" where
  "flaky_client =
     \<lparr>save_chat_history = (\<lambda>st name company_name chat_history.
         (if st = 0 then Inl (PyExn OtherException ''connection reset'')
          else Inr (JObj [(''id'', JInt (int st))]), Suc st)),
      get_chat_history = (\<lambda>st name company_name limit. Inr (JArr []))\<rparr>"

section \<open>GET /get\_chats\<close>

text \<open>
  \<^verbatim>\<open>request.args\<close> is a map from parameter names to their text, and \<open>py_int\<close> is the
  built-in \<^verbatim>\<open>int\<close> of line 122. The view returns its response together with the storage
  reads it made, each with the arguments it passed.
\<close>

type_synonym read_call = "string option \<times> string option \<times> int"

definition get_chats ::
  "(string \<Rightarrow> py_exn + int) \<Rightarrow> (py_exn + 's supabase_client) \<Rightarrow> 's \<Rightarrow> (string \<rightharpoonup> string)
     \<Rightarrow> response \<times> read_call list" where
  "get_chats py_int get_supabase_client store args =
     (let name = args ''name'';
          company_name = args ''company_name''
      in case (case args ''limit'' of None \<Rightarrow> Inr 50 | Some s \<Rightarrow> py_int s) of
           Inl e \<Rightarrow> (respond 500 (InternalError ''Internal server error: '' e), [])
         | Inr limit \<Rightarrow>
             (case get_supabase_client of
                Inl e \<Rightarrow> (respond 500 (InternalError ''Internal server error: '' e), [])
              | Inr supabase_client \<Rightarrow>
                  (case get_chat_history supabase_client store name company_name limit of
                     Inl e \<Rightarrow> (respond 500 (InternalError ''Internal server error: '' e),
                               [(name, company_name, limit)])
                   | Inr chats \<Rightarrow>
                       (case py_len chats of
                          Inl e \<Rightarrow> (respond 500 (InternalError ''Internal server error: '' e),
                                    [(name, company_name, limit)])
                        | Inr n \<Rightarrow> (respond 200 (GetChatsOk chats n),
                                    [(name, company_name, limit)])))))"

section \<open>POST /save\_chat\<close>

text \<open>
  \<open>get_json\<close> is what \<^verbatim>\<open>request.get_json()\<close> does with the request body: it returns the
  decoded value or raises. The view returns its response, the collaborator's state
  afterwards and the storage writes it made. The length of the history is first taken
  for the log line (line 86), before the client is obtained.
\<close>

type_synonym write_call = "json \<times> json \<times> json"

definition save_chat ::
  "(py_exn + 's supabase_client) \<Rightarrow> 's \<Rightarrow> (py_exn + json) \<Rightarrow> response \<times> 's \<times> write_call list" where
  "save_chat get_supabase_client store get_json =
     (let internal = (\<lambda>e st ws. (respond 500 (InternalError ''Internal server error: '' e), st, ws))
      in case get_json of
           Inl e \<Rightarrow> internal e store []
         | Inr data \<Rightarrow>
             if \<not> py_truthy data
             then (respond 400 (ErrorBody (JStr ''No JSON data provided'')), store, [])
             else
               (case py_get data ''name'' (JStr ''Unknown'') of
                  Inl e \<Rightarrow> internal e store []
                | Inr name \<Rightarrow>
               (case py_get data ''company_name'' (JStr ''Unknown Company'') of
                  Inl e \<Rightarrow> internal e store []
                | Inr company_name \<Rightarrow>
               (case py_get data ''chat_history'' (JArr []) of
                  Inl e \<Rightarrow> internal e store []
                | Inr chat_history \<Rightarrow>
                    if \<not> py_truthy chat_history
                    then (respond 400 (ErrorBody (JStr ''No chat history provided'')), store, [])
                    else
               (case py_len chat_history of
                  Inl e \<Rightarrow> internal e store []
                | Inr n \<Rightarrow>
               (case get_supabase_client of
                  Inl e \<Rightarrow> internal e store []
                | Inr supabase_client \<Rightarrow>
               (case save_chat_history supabase_client store name company_name chat_history of
                  (Inl e, store') \<Rightarrow> internal e store' [(name, company_name, chat_history)]
                | (Inr result, store') \<Rightarrow>
               (case py_contains ''error'' result of
                  Inl e \<Rightarrow> internal e store' [(name, company_name, chat_history)]
                | Inr True \<Rightarrow>
                    (case py_subscript result ''error'' of
                       Inl e \<Rightarrow> internal e store' [(name, company_name, chat_history)]
                     | Inr err \<Rightarrow>
                         (respond 500 (ErrorBody err), store', [(name, company_name, chat_history)]))
                | Inr False \<Rightarrow>
                    (case py_get result ''id'' JNull of
                       Inl e \<Rightarrow> internal e store' [(name, company_name, chat_history)]
                     | Inr record_id \<Rightarrow>
                         (respond 200 (SaveChatOk name record_id n), store',
                          [(name, company_name, chat_history)]))))))))))"

section \<open>POST /extract\_client\_info\<close>

text \<open>\<^verbatim>\<open>for msg in x\<close>: the elements of a list, the characters of a string, the keys of a dictionary.\<close>

fun py_iter :: "json \<Rightarrow> py_exn + json list" where
  "py_iter (JArr xs) = Inr xs"
| "py_iter (JStr s) = Inr (map (\<lambda>c. JStr [c]) s)"
| "py_iter (JObj kvs) = Inr (map (\<lambda>kv. JStr (fst kv)) kvs)"
| "py_iter v = Inl (PyExn TypeError ''object is not iterable'')"

text \<open>
  Lines 165-169 build \<^verbatim>\<open>conversation_text\<close>, one line \<^verbatim>\<open>f"{speaker}: {message}\n"\<close> per
  message. The text is kept as the list of the pairs it interpolates; the first message
  that has no \<^verbatim>\<open>get\<close> raises.
\<close>

type_synonym transcript = "(json \<times> json) list"

fun conversation_text :: "json list \<Rightarrow> py_exn + transcript" where
  "conversation_text [] = Inr []"
| "conversation_text (msg # msgs) =
     (case py_get msg ''speaker'' (JStr ''Unknown'') of
        Inl e \<Rightarrow> Inl e
      | Inr speaker \<Rightarrow>
          (case py_get msg ''message'' (JStr []) of
             Inl e \<Rightarrow> Inl e
           | Inr message \<Rightarrow>
               (case conversation_text msgs of
                  Inl e \<Rightarrow> Inl e
                | Inr rest \<Rightarrow> Inr ((speaker, message) # rest))))"

text \<open>
  The completion service is a parameter \<open>create_completion\<close>
  (\<^verbatim>\<open>client.chat.completions.create\<close>): given the conversation placed in the
  prompt, it raises (also when the client cannot be built) or returns the response, kept
  as the list of \<^verbatim>\<open>choices[i].message.content\<close>, each a text or \<^verbatim>\<open>None\<close>. Line 195 takes
  the first and strips it with \<^verbatim>\<open>str.strip\<close>, the parameter \<open>py_strip\<close>.
\<close>

type_synonym completion = "string option list"

definition result_text :: "(string \<Rightarrow> string) \<Rightarrow> completion \<Rightarrow> py_exn + string" where
  "result_text py_strip choices =
     (case choices of
        [] \<Rightarrow> Inl (PyExn IndexError ''list index out of range'')
      | content # rest \<Rightarrow>
          (case content of
             None \<Rightarrow> Inl (PyExn AttributeError ''NoneType object has no attribute strip'')
           | Some t \<Rightarrow> Inr (py_strip t)))"

text \<open>
  Lines 197-206. \<open>json_loads\<close> is the decoder \<^verbatim>\<open>json.loads\<close>: it returns the decoded value
  or raises. The bare \<^verbatim>\<open>except\<close> catches its error as well as the missing \<^verbatim>\<open>get\<close> of a
  decoded value that is no dictionary.
\<close>

definition parse_extracted :: "(string \<Rightarrow> py_exn + json) \<Rightarrow> string \<Rightarrow> json \<times> json" where
  "parse_extracted json_loads text =
     (case json_loads text of
        Inl e \<Rightarrow> (JStr ''Unknown'', JStr ''Unknown'')
      | Inr extracted_info \<Rightarrow>
          (case py_get extracted_info ''name'' (JStr ''Unknown'') of
             Inl e \<Rightarrow> (JStr ''Unknown'', JStr ''Unknown'')
           | Inr name \<Rightarrow>
               (case py_get extracted_info ''company'' (JStr ''Unknown'') of
                  Inl e \<Rightarrow> (JStr ''Unknown'', JStr ''Unknown'')
                | Inr company \<Rightarrow> (name, company))))"

definition extract_client_info ::
  "(transcript \<Rightarrow> py_exn + completion) \<Rightarrow> (string \<Rightarrow> string) \<Rightarrow> (string \<Rightarrow> py_exn + json)
     \<Rightarrow> (py_exn + json) \<Rightarrow> response" where
  "extract_client_info create_completion py_strip json_loads get_json =
     (let failed = (\<lambda>e. respond 500 (InternalError ''Failed to extract client info: '' e));
          no_history = respond 400 (ErrorBody (JStr ''No chat history provided''))
      in case get_json of
           Inl e \<Rightarrow> failed e
         | Inr data \<Rightarrow>
             if \<not> py_truthy data then no_history
             else
               (case py_get data ''chat_history'' JNull of
                  Inl e \<Rightarrow> failed e
                | Inr chat_history \<Rightarrow>
                    if \<not> py_truthy chat_history then no_history
                    else
               (case py_iter chat_history of
                  Inl e \<Rightarrow> failed e
                | Inr msgs \<Rightarrow>
               (case conversation_text msgs of
                  Inl e \<Rightarrow> failed e
                | Inr conversation \<Rightarrow>
               (case create_completion conversation of
                  Inl e \<Rightarrow> failed e
                | Inr choices \<Rightarrow>
               (case result_text py_strip choices of
                  Inl e \<Rightarrow> failed e
                | Inr text \<Rightarrow>
                    (case parse_extracted json_loads text of
                       (name, company) \<Rightarrow> respond 200 (ExtractOk name company))))))))"

section \<open>POST /save-conversation\<close>

subsection \<open>The extractor of the legacy path\<close>

text \<open>
  Modelled from the spec: the module \<^verbatim>\<open>llm_extractor\<close> and its function
  \<^verbatim>\<open>extract_user_info_from_chat\<close>, which line 245 imports, are not among the sources.
  Section 4.3 of the specification describes the extractor: it renders the transcript as
  \<open>speaker: message\<close> lines, issues one completion request, and parses the response
  strictly as \<open>{name, company}\<close>, both of them text (section 3); on any parse failure
  (malformed JSON, missing fields, non-JSON text) it returns \<open>{"Unknown", "Unknown"}\<close>; a
  failure of the completion service is propagated.
\<close>




subsection \<open>The synchronous persistence bridge (lines 259-304)\<close>

text \<open>
  What the bridge does to schedulers and storage is recorded as a list of events. There
  are two places where a loop is created: line 268 (\<open>FirstAttempt\<close>) and line 296
  (\<open>Fallback\<close>); each runs at most once in a call. \<open>Write\<close> records that the coroutine
  \<^verbatim>\<open>save_chat_history(...)\<close> was driven, with its arguments. The executor of line 275 is
  entered and left by its \<^verbatim>\<open>with\<close> block; the private loop of \<^verbatim>\<open>asyncio.run\<close> in the
  worker thread is opened and closed by \<^verbatim>\<open>asyncio.run\<close> itself and is not recorded.
\<close>

datatype site = FirstAttempt | Fallback

datatype event =
    NewLoop site
  | SetLoop site
  | CloseLoop site
  | PoolEnter
  | PoolExit
  | Write json json json

text \<open>
  The scheduling library is an environment. \<open>get_event_loop\<close> raises or returns the
  current loop, of which the code asks \<^verbatim>\<open>is_closed()\<close> and \<^verbatim>\<open>is_running()\<close>.
  \<open>new_event_loop\<close> tells, per site, whether \<^verbatim>\<open>asyncio.new_event_loop()\<close> raises.
  \<open>sched_error\<close> tells, per site, whether the call that should drive the coroutine
  (\<^verbatim>\<open>run_until_complete\<close>, or \<^verbatim>\<open>pool.submit(asyncio.run, ...).result()\<close>) raises before
  the coroutine runs, as \<^verbatim>\<open>run_until_complete\<close> does while another loop is running in the
  thread.
\<close>

record loop_info =
  is_closed :: bool
  is_running :: bool

record asyncio_env =
  get_event_loop :: "py_exn + loop_info"
  new_event_loop :: "site \<Rightarrow> py_exn option"
  sched_error :: "site \<Rightarrow> py_exn option"

text \<open>A request thread with no current loop, and one inside a running loop.\<close>

definition no_loop_env :: asyncio_env where
  "no_loop_env =
     \<lparr>get_event_loop = Inl (PyExn RuntimeError ''There is no current event loop''),
      new_event_loop = (\<lambda>site. None),
      sched_error = (\<lambda>site. None)\<rparr>"

definition running_loop_env :: asyncio_env where
  "running_loop_env =
     \<lparr>get_event_loop = Inr \<lparr>is_closed = False, is_running = True\<rparr>,
      new_event_loop = (\<lambda>site. None),
      sched_error = (\<lambda>site. case site of
         FirstAttempt \<Rightarrow> None
       | Fallback \<Rightarrow> Some (PyExn RuntimeError
           ''Cannot run the event loop while another loop is running''))\<rparr>"

definition drive ::
  "'s supabase_client \<Rightarrow> 's \<Rightarrow> json \<Rightarrow> json \<Rightarrow> json \<Rightarrow> (py_exn + json) \<times> 's \<times> event list" where
  "drive supabase_client store name company chat_history =
     (case save_chat_history supabase_client store name company chat_history of
        (r, store') \<Rightarrow> (r, store', [Write name company chat_history]))"

text \<open>Lines 262-269: the loop to use, given as its \<^verbatim>\<open>is_running()\<close>; a new loop is idle.\<close>

definition acquire_loop :: "asyncio_env \<Rightarrow> (py_exn + bool) \<times> event list" where
  "acquire_loop env =
     (case (case get_event_loop env of
              Inl e \<Rightarrow> Inl e
            | Inr loop \<Rightarrow>
                if is_closed loop then Inl (PyExn RuntimeError ''Loop is closed'') else Inr loop) of
        Inr loop \<Rightarrow> (Inr (is_running loop), [])
      | Inl e \<Rightarrow>
          if exn_kind e = RuntimeError
          then (case new_event_loop env FirstAttempt of
                  Some e' \<Rightarrow> (Inl e', [])
                | None \<Rightarrow> (Inr False, [NewLoop FirstAttempt, SetLoop FirstAttempt]))
          else (Inl e, []))"

text \<open>Lines 260-292: the body of the inner \<^verbatim>\<open>try\<close>.\<close>

definition first_attempt ::
  "asyncio_env \<Rightarrow> 's supabase_client \<Rightarrow> 's \<Rightarrow> json \<Rightarrow> json \<Rightarrow> json
     \<Rightarrow> (py_exn + json) \<times> 's \<times> event list" where
  "first_attempt env supabase_client store name company chat_history =
     (case acquire_loop env of
        (Inl e, evs) \<Rightarrow> (Inl e, store, evs)
      | (Inr running, evs) \<Rightarrow>
          if running
          then (case (case sched_error env FirstAttempt of
                        Some e \<Rightarrow> (Inl e, store, [])
                      | None \<Rightarrow> drive supabase_client store name company chat_history) of
                  (r, store', evs') \<Rightarrow> (r, store', evs @ [PoolEnter] @ evs' @ [PoolExit]))
          else (case sched_error env FirstAttempt of
                  Some e \<Rightarrow> (Inl e, store, evs)
                | None \<Rightarrow>
                    (case drive supabase_client store name company chat_history of
                       (r, store', evs') \<Rightarrow> (r, store', evs @ evs'))))"

text \<open>Lines 260-304: the inner \<^verbatim>\<open>try\<close> with its handler, which runs on any exception.\<close>

definition persistence_bridge ::
  "asyncio_env \<Rightarrow> 's supabase_client \<Rightarrow> 's \<Rightarrow> json \<Rightarrow> json \<Rightarrow> json
     \<Rightarrow> (py_exn + json) \<times> 's \<times> event list" where
  "persistence_bridge env supabase_client store name company chat_history =
     (case first_attempt env supabase_client store name company chat_history of
        (Inr result, store1, evs) \<Rightarrow> (Inr result, store1, evs)
      | (Inl loop_error, store1, evs) \<Rightarrow>
          (case new_event_loop env Fallback of
             Some e \<Rightarrow> (Inl e, store1, evs)
           | None \<Rightarrow>
               (case sched_error env Fallback of
                  Some e \<Rightarrow> (Inl e, store1, evs @ [NewLoop Fallback])
                | None \<Rightarrow>
                    (case drive supabase_client store1 name company chat_history of
                       (Inl e, store2, evs') \<Rightarrow> (Inl e, store2, evs @ [NewLoop Fallback] @ evs')
                     | (Inr result, store2, evs') \<Rightarrow>
                         (Inr result, store2,
                          evs @ [NewLoop Fallback] @ evs' @ [CloseLoop Fallback])))))"

subsection \<open>The view\<close>

text \<open>
  \<open>extract\<close> is the extractor the view imports and calls at lines 245-248 (a failing
  import raises like a failing call). The view returns its response, the collaborator's
  state afterwards and the events of the bridge.
\<close>

definition save_conversation ::
  "asyncio_env \<Rightarrow> (json \<Rightarrow> py_exn + json) \<Rightarrow> (py_exn + 's supabase_client) \<Rightarrow> 's
     \<Rightarrow> (py_exn + json) \<Rightarrow> response \<times> 's \<times> event list" where
  "save_conversation env extract get_supabase_client store get_json =
     (let failed = (\<lambda>e st evs. (respond 500 (InternalError [] e), st, evs))
      in case get_json of
           Inl e \<Rightarrow> failed e store []
         | Inr data \<Rightarrow>
             if \<not> py_truthy data
             then (respond 400 (ErrorBody (JStr ''No chat history provided'')), store, [])
             else
               (case py_contains ''chat_history'' data of
                  Inl e \<Rightarrow> failed e store []
                | Inr False \<Rightarrow>
                    (respond 400 (ErrorBody (JStr ''No chat history provided'')), store, [])
                | Inr True \<Rightarrow>
               (case py_subscript data ''chat_history'' of
                  Inl e \<Rightarrow> failed e store []
                | Inr chat_history \<Rightarrow>
                    if \<not> py_truthy chat_history
                    then (respond 400 (ErrorBody (JStr ''Chat history is empty'')), store, [])
                    else
               (case py_len chat_history of
                  Inl e \<Rightarrow> failed e store []
                | Inr n \<Rightarrow>
               (case extract chat_history of
                  Inl e \<Rightarrow> failed e store []
                | Inr user_info \<Rightarrow>
               (case py_get user_info ''name'' (JStr ''Unknown'') of
                  Inl e \<Rightarrow> failed e store []
                | Inr name \<Rightarrow>
               (case py_get user_info ''company'' (JStr ''Unknown'') of
                  Inl e \<Rightarrow> failed e store []
                | Inr company \<Rightarrow>
               (case get_supabase_client of
                  Inl e \<Rightarrow> failed e store []
                | Inr supabase_client \<Rightarrow>
               (case persistence_bridge env supabase_client store name company chat_history of
                  (Inl e, store', evs) \<Rightarrow> failed e store' evs
                | (Inr result, store', evs) \<Rightarrow>
                    (case (if py_truthy result then py_get result ''id'' JNull else Inr JNull) of
                       Inl e \<Rightarrow> failed e store' evs
                     | Inr record_id \<Rightarrow>
                         (respond 200 (SaveConversationOk name company n record_id),
                          store', evs)))))))))))"

text \<open>The storage writes among the events of a call, in order.\<close>

fun writes :: "event list \<Rightarrow> write_call list" where
  "writes [] = []"
| "writes (Write name company chat_history # evs) = (name, company, chat_history) # writes evs"
| "writes (ev # evs) = writes evs"

section \<open>Room names\<close>

text \<open>
  \<open>list_rooms\<close> is what the registry call of \<^verbatim>\<open>get_rooms\<close> does: it raises or returns the
  rooms. \<open>uuid4 i\<close> is the text of the \<open>i\<close>-th identifier \<^verbatim>\<open>str(uuid.uuid4())\<close> drawn in the
  call; a candidate name is \<^verbatim>\<open>"room-"\<close> and its first eight characters.
\<close>

record room =
  room_name :: string

definition get_rooms :: "(py_exn + room list) \<Rightarrow> py_exn + string list" where
  "get_rooms list_rooms =
     (case list_rooms of Inl e \<Rightarrow> Inl e | Inr rooms \<Rightarrow> Inr (map room_name rooms))"

definition candidate :: "(nat \<Rightarrow> string) \<Rightarrow> nat \<Rightarrow> string" where
  "candidate uuid4 i = ''room-'' @ take 8 (uuid4 i)"

text \<open>
  The loop of lines 25-26, entered with the candidate \<open>name\<close> and the number \<open>i\<close> of
  identifiers drawn so far. It need not end: \<open>None\<close> is the run that never returns.
\<close>

partial_function (option) redraw :: "(nat \<Rightarrow> string) \<Rightarrow> string list \<Rightarrow> nat \<Rightarrow> string \<Rightarrow> string option" where
  "redraw uuid4 rooms i name =
     (if name \<in> set rooms then redraw uuid4 rooms (Suc i) (candidate uuid4 i) else Some name)"

declare redraw.simps [code]

definition generate_room_name ::
  "(nat \<Rightarrow> string) \<Rightarrow> (py_exn + room list) \<Rightarrow> (py_exn + string) option" where
  "generate_room_name uuid4 list_rooms =
     (let name = candidate uuid4 0
      in case get_rooms list_rooms of
           Inl e \<Rightarrow> Some (Inl e)
         | Inr rooms \<Rightarrow> map_option Inr (redraw uuid4 rooms 1 name))"

section \<open>Requests used in the concrete runs\<close>

definition two_messages :: json where
  "two_messages =
     JArr [JObj [(''speaker'', JStr ''User''), (''message'', JStr ''My name is Alice, I work at Acme'')],
           JObj [(''speaker'', JStr ''Agent''), (''message'', JStr ''Welcome, Alice'')]]"

definition two_uuids :: "nat \<Rightarrow> string" where
  "two_uuids i = (if i = 0 then ''3f2a9c1e-7b4d-4e2a-9c1e-0a1b2c3d4e5f''
                  else ''b81d04aa-52c7-4f0e-8a3b-6d5e4f3a2b1c'')"

definition conversation_request :: json where
  "conversation_request = JObj [(''chat_history'', two_messages)]"

text \<open>An extractor double for the legacy path: it finds Alice of Acme in every transcript.\<close>

definition alice_extractor :: "json \<Rightarrow> py_exn + json" where
  "alice_extractor chat_history = Inr (JObj [(''name'', JStr ''Alice''), (''company'', JStr ''Acme'')])"

text \<open>
  Doubles for the two built-ins. \<open>ascii_strip\<close> removes the ASCII whitespace characters
  at both ends, as \<^verbatim>\<open>str.strip()\<close> does on a text of ASCII characters. \<open>int_fixture\<close> knows
  the three texts used below, read as \<^verbatim>\<open>int\<close> reads them.
\<close>

definition is_space :: "char \<Rightarrow> bool" where
  "is_space c = (c \<in> set [CHR 0x09, CHR 0x0A, CHR 0x0B, CHR 0x0C, CHR 0x0D,
                            CHR 0x1C, CHR 0x1D, CHR 0x1E, CHR 0x1F, CHR 0x20])"

definition ascii_strip :: "string \<Rightarrow> string" where
  "ascii_strip s = rev (dropWhile is_space (rev (dropWhile is_space s)))"

definition int_fixture :: "string \<Rightarrow> py_exn + int" where
  "int_fixture s =
     (if s = ''0'' then Inr 0
      else if s = ''-5'' then Inr (- 5)
      else if s = ''abc'' then Inl (PyExn ValueError ''invalid literal for int() with base 10'')
      else Inl (PyExn ValueError ''text outside the fixture''))"

text \<open>
  Doubles for the completion service and the decoder: the service answers with one choice
  holding a given text; the decoder knows the two JSON texts used below, decoded as
  \<^verbatim>\<open>json.loads\<close> decodes them, and rejects every other text.
\<close>

definition decode_fixture :: "string \<Rightarrow> py_exn + json" where
  \<open>decode_fixture text =
     (if text = ''{"name": "Alice", "company": "Acme"}''
      then Inr (JObj [(''name'', JStr ''Alice''), (''company'', JStr ''Acme'')])
      else if text = ''{"name": "Alice"}''
      then Inr (JObj [(''name'', JStr ''Alice'')])
      else Inl (PyExn ValueError ''Expecting value''))\<close>

definition completion_with :: "string \<Rightarrow> transcript \<Rightarrow> py_exn + completion" where
  "completion_with text conversation = Inr [Some text]"

section \<open>Properties of GET /get\_chats\<close>

text \<open>
  C10. When the \<open>limit\<close> parameter is present and the built-in \<^verbatim>\<open>int\<close> raises on it, the
  conversion fails before anything else happens: the catch-all handler answers 500 with
  the message of the conversion error (not a 400), and no storage read is made.
\<close>

theorem get_chats_unparseable_limit:
  "args ''limit'' = Some s \<Longrightarrow> py_int s = Inl e \<Longrightarrow>
     get_chats py_int get_supabase_client store args =
       (respond 500 (InternalError ''Internal server error: '' e), []) \<and>
     status (fst (get_chats py_int get_supabase_client store args)) = 500"
  by (simp add: get_chats_def respond_def)

theorem get_chats_unparseable_limit_witness:
  "[''limit'' \<mapsto> ''abc''] ''limit'' = Some ''abc'' \<and>
   int_fixture ''abc'' = Inl (PyExn ValueError ''invalid literal for int() with base 10'') \<and>
   get_chats int_fixture (Inr memory_client) [] [''limit'' \<mapsto> ''abc''] =
     (respond 500 (InternalError ''Internal server error: ''
        (PyExn ValueError ''invalid literal for int() with base 10'')), []) \<and>
   status (fst (get_chats int_fixture (Inr memory_client) [] [''limit'' \<mapsto> ''abc''])) = 500"
proof -
  have a: "[''limit'' \<mapsto> ''abc''] ''limit'' = Some ''abc''"
    by simp
  have p: "int_fixture ''abc'' = Inl (PyExn ValueError ''invalid literal for int() with base 10'')"
    by (simp add: int_fixture_def)
  show ?thesis
    using get_chats_unparseable_limit
      [where args = "[''limit'' \<mapsto> ''abc'']" and s = "''abc''" and py_int = int_fixture
         and get_supabase_client = "Inr memory_client" and store = "[]", OF a p] a p
    by (simp add: respond_def)
qed

text \<open>
  C3, as stated, fails: with \<open>limit=0\<close> the view answers 200 and the storage read receives
  the limit 0.
\<close>

theorem get_chats_nonpositive_limit_counterexample:
  "int_fixture ''0'' = Inr 0 \<and>
   status (fst (get_chats int_fixture (Inr memory_client) [] [''limit'' \<mapsto> ''0''])) = 200 \<and>
   snd (get_chats int_fixture (Inr memory_client) [] [''limit'' \<mapsto> ''0'']) = [(None, None, 0)]"
  by (simp add: get_chats_def respond_def memory_client_def int_fixture_def)

text \<open>
  C3, amended. The view validates nothing and never answers 400. Whenever \<^verbatim>\<open>int\<close> reads
  the \<open>limit\<close> parameter as an integer \<open>n\<close>, positive or not: when the storage client
  cannot be obtained the answer is 500 and no read is made; otherwise exactly one storage
  read is made and it receives \<open>n\<close> unchanged, and the answer is 500 when the read raises
  and 200 with the records and their number when it returns a list.
\<close>

theorem get_chats_forwards_limit:
  "args ''limit'' = Some s \<Longrightarrow> py_int s = Inr n \<Longrightarrow>
     status (fst (get_chats py_int get_supabase_client store args)) \<noteq> 400 \<and>
     (\<forall>e. get_supabase_client = Inl e \<longrightarrow>
        get_chats py_int get_supabase_client store args =
          (respond 500 (InternalError ''Internal server error: '' e), [])) \<and>
     (\<forall>client. get_supabase_client = Inr client \<longrightarrow>
        snd (get_chats py_int get_supabase_client store args) =
          [(args ''name'', args ''company_name'', n)] \<and>
        (\<forall>e. get_chat_history client store (args ''name'') (args ''company_name'') n = Inl e \<longrightarrow>
           status (fst (get_chats py_int get_supabase_client store args)) = 500) \<and>
        (\<forall>xs. get_chat_history client store (args ''name'') (args ''company_name'') n =
                Inr (JArr xs) \<longrightarrow>
           fst (get_chats py_int get_supabase_client store args) =
             respond 200 (GetChatsOk (JArr xs) (length xs))))"
  by (simp add: get_chats_def respond_def Let_def split: sum.splits)

theorem get_chats_forwards_limit_witness:
  "[''limit'' \<mapsto> ''-5''] ''limit'' = Some ''-5'' \<and> int_fixture ''-5'' = Inr (- 5) \<and>
   snd (get_chats int_fixture (Inr memory_client) [] [''limit'' \<mapsto> ''-5'']) =
     [(None, None, - 5)] \<and>
   fst (get_chats int_fixture (Inr memory_client) [] [''limit'' \<mapsto> ''-5'']) =
     respond 200 (GetChatsOk (JArr []) 0)"
proof -
  have a: "[''limit'' \<mapsto> ''-5''] ''limit'' = Some ''-5''"
    by simp
  have p: "int_fixture ''-5'' = Inr (- 5)"
    by (simp add: int_fixture_def)
  have r: "get_chat_history memory_client [] None None (- 5) = Inr (JArr [])"
    by (simp add: memory_client_def)
  note t = get_chats_forwards_limit
      [where args = "[''limit'' \<mapsto> ''-5'']" and s = "''-5''" and py_int = int_fixture
         and get_supabase_client = "Inr memory_client" and store = "[]", OF a p,
       THEN conjunct2, THEN conjunct2, rule_format, OF refl]
  from t [THEN conjunct1] t [THEN conjunct2, THEN conjunct2, rule_format, of "[]"] a p r
  show ?thesis by simp
qed

section \<open>Properties of POST /save\_chat\<close>

text \<open>
  C5, as stated, fails: a request whose body is a JSON array has no \<open>chat_history\<close>, and it
  is answered 500, because only a dictionary has \<^verbatim>\<open>get\<close>.
\<close>

theorem save_chat_array_body_counterexample:
  "py_get (JArr [JStr ''hello'']) ''chat_history'' (JArr []) =
     Inl (PyExn AttributeError ''object has no attribute get'') \<and>
   status (fst (save_chat (Inr memory_client) [] (Inr (JArr [JStr ''hello''])))) = 500"
  by (simp add: save_chat_def respond_def)

text \<open>
  C5, amended. A body that is false in Python (null, an empty object, list or string, zero)
  is answered 400. A body that is a JSON object is answered 400, with no write, when its
  \<open>chat_history\<close> is missing or empty; with a \<open>chat_history\<close> of length \<open>n > 0\<close> and the storage
  client available, it is answered 200 with \<open>success\<close> and \<open>message_count = n\<close> when the
  write returns a record without an \<open>error\<close> field, and 500 when the write returns a record
  with an \<open>error\<close> field or raises. Any other body (true in Python, not an object) is
  answered 500 by the catch-all handler, and nothing is written.
\<close>

theorem save_chat_outcomes:
  "(\<not> py_truthy data \<longrightarrow>
      save_chat gsc st (Inr data) =
        (respond 400 (ErrorBody (JStr ''No JSON data provided'')), st, [])) \<and>
   (py_truthy data \<and> (\<forall>kvs. data \<noteq> JObj kvs) \<longrightarrow>
      status (fst (save_chat gsc st (Inr data))) = 500 \<and> snd (snd (save_chat gsc st (Inr data))) = []) \<and>
   (\<forall>kvs name company h.
      data = JObj kvs \<and>
      py_get data ''name'' (JStr ''Unknown'') = Inr name \<and>
      py_get data ''company_name'' (JStr ''Unknown Company'') = Inr company \<and>
      py_get data ''chat_history'' (JArr []) = Inr h \<longrightarrow>
      (\<not> py_truthy h \<longrightarrow>
         status (fst (save_chat gsc st (Inr data))) = 400 \<and>
         snd (save_chat gsc st (Inr data)) = (st, [])) \<and>
      (\<forall>n client st'.
         py_len h = Inr n \<and> 0 < n \<and> gsc = Inr client \<longrightarrow>
         (\<forall>r. save_chat_history client st name company h = (Inr (JObj r), st') \<and>
               map_of r ''error'' = None \<longrightarrow>
               save_chat gsc st (Inr data) =
                 (respond 200 (SaveChatOk name (case map_of r ''id'' of None \<Rightarrow> JNull | Some v \<Rightarrow> v) n),
                  st', [(name, company, h)])) \<and>
         (\<forall>r. save_chat_history client st name company h = (Inr (JObj r), st') \<and>
               map_of r ''error'' \<noteq> None \<longrightarrow>
               status (fst (save_chat gsc st (Inr data))) = 500) \<and>
         (\<forall>e. save_chat_history client st name company h = (Inl e, st') \<longrightarrow>
               status (fst (save_chat gsc st (Inr data))) = 500)))"
proof (intro conjI impI allI)
  assume "\<not> py_truthy data"
  then show "save_chat gsc st (Inr data) =
        (respond 400 (ErrorBody (JStr ''No JSON data provided'')), st, [])"
    by (simp add: save_chat_def)
next
  assume a: "py_truthy data \<and> (\<forall>kvs. data \<noteq> JObj kvs)"
  then have g: "\<And>k d. py_get data k d = Inl (PyExn AttributeError ''object has no attribute get'')"
    by (cases data) simp_all
  from a g show "status (fst (save_chat gsc st (Inr data))) = 500"
    by (simp add: save_chat_def respond_def)
  from a g show "snd (snd (save_chat gsc st (Inr data))) = []"
    by (simp add: save_chat_def respond_def)
next
  fix kvs name company h
  assume a: "data = JObj kvs \<and>
      py_get data ''name'' (JStr ''Unknown'') = Inr name \<and>
      py_get data ''company_name'' (JStr ''Unknown Company'') = Inr company \<and>
      py_get data ''chat_history'' (JArr []) = Inr h"
  assume "\<not> py_truthy h"
  with a show "status (fst (save_chat gsc st (Inr data))) = 400"
    by (auto simp add: save_chat_def respond_def)
  from a \<open>\<not> py_truthy h\<close> show "snd (save_chat gsc st (Inr data)) = (st, [])"
    by (auto simp add: save_chat_def respond_def)
next
  fix kvs name company h n client st' r
  assume a: "data = JObj kvs \<and>
      py_get data ''name'' (JStr ''Unknown'') = Inr name \<and>
      py_get data ''company_name'' (JStr ''Unknown Company'') = Inr company \<and>
      py_get data ''chat_history'' (JArr []) = Inr h"
    and b: "py_len h = Inr n \<and> 0 < n \<and> gsc = Inr client"
    and c: "save_chat_history client st name company h = (Inr (JObj r), st') \<and> map_of r ''error'' = None"
  from b have t: "py_truthy h" by (cases h) auto
  from a t have d: "py_truthy data" by (cases kvs) auto
  show "save_chat gsc st (Inr data) =
                 (respond 200 (SaveChatOk name (case map_of r ''id'' of None \<Rightarrow> JNull | Some v \<Rightarrow> v) n),
                  st', [(name, company, h)])"
    using a b c t d by (auto simp add: save_chat_def respond_def)
next
  fix kvs name company h n client st' r
  assume a: "data = JObj kvs \<and>
      py_get data ''name'' (JStr ''Unknown'') = Inr name \<and>
      py_get data ''company_name'' (JStr ''Unknown Company'') = Inr company \<and>
      py_get data ''chat_history'' (JArr []) = Inr h"
    and b: "py_len h = Inr n \<and> 0 < n \<and> gsc = Inr client"
    and c: "save_chat_history client st name company h = (Inr (JObj r), st') \<and> map_of r ''error'' \<noteq> None"
  from b have t: "py_truthy h" by (cases h) auto
  from a t have d: "py_truthy data" by (cases kvs) auto
  show "status (fst (save_chat gsc st (Inr data))) = 500"
    using a b c t d by (auto simp add: save_chat_def respond_def)
next
  fix kvs name company h n client st' e
  assume a: "data = JObj kvs \<and>
      py_get data ''name'' (JStr ''Unknown'') = Inr name \<and>
      py_get data ''company_name'' (JStr ''Unknown Company'') = Inr company \<and>
      py_get data ''chat_history'' (JArr []) = Inr h"
    and b: "py_len h = Inr n \<and> 0 < n \<and> gsc = Inr client"
    and c: "save_chat_history client st name company h = (Inl e, st')"
  from b have t: "py_truthy h" by (cases h) auto
  from a t have d: "py_truthy data" by (cases kvs) auto
  show "status (fst (save_chat gsc st (Inr data))) = 500"
    using a b c t d by (auto simp add: save_chat_def respond_def)
qed

theorem save_chat_outcomes_witness:
  "py_len two_messages = Inr 2 \<and>
   save_chat (Inr memory_client) []
       (Inr (JObj [(''name'', JStr ''Alice''), (''company_name'', JStr ''Acme''),
                   (''chat_history'', two_messages)])) =
     (respond 200 (SaveChatOk (JStr ''Alice'') (JInt 1) 2),
      [JObj [(''name'', JStr ''Alice''), (''company_name'', JStr ''Acme''),
             (''chat_history'', two_messages)]],
      [(JStr ''Alice'', JStr ''Acme'', two_messages)])"
proof -
  let ?kvs = "[(''name'', JStr ''Alice''), (''company_name'', JStr ''Acme''),
               (''chat_history'', two_messages)]"
  have fields: "JObj ?kvs = JObj ?kvs \<and>
      py_get (JObj ?kvs) ''name'' (JStr ''Unknown'') = Inr (JStr ''Alice'') \<and>
      py_get (JObj ?kvs) ''company_name'' (JStr ''Unknown Company'') = Inr (JStr ''Acme'') \<and>
      py_get (JObj ?kvs) ''chat_history'' (JArr []) = Inr two_messages"
    by simp
  have len: "py_len two_messages = Inr 2 \<and> (0::nat) < 2 \<and>
      (Inr memory_client :: py_exn + json list supabase_client) = Inr memory_client"
    by (simp add: two_messages_def)
  have wr: "save_chat_history memory_client [] (JStr ''Alice'') (JStr ''Acme'') two_messages =
      (Inr (JObj [(''id'', JInt 1)]), [JObj ?kvs]) \<and> map_of [(''id'', JInt 1)] ''error'' = None"
    by (simp add: memory_client_def)
  note ok = save_chat_outcomes [of "JObj ?kvs" "Inr memory_client" "[]",
      THEN conjunct2, THEN conjunct2, rule_format, OF fields,
      THEN conjunct2, rule_format, OF len, THEN conjunct1, rule_format, OF wr]
  from ok len show ?thesis by simp
qed

section \<open>Properties of the room-name allocator\<close>

lemma redraw_fresh:
  assumes "redraw uuid4 rooms i name = Some y"
  shows "y \<notin> set rooms"
  using assms
proof (induction uuid4 rooms i name y rule: redraw.raw_induct [rotated 1, consumes 1, case_names step])
  case (step redraw' u r j n z)
  show ?case
  proof (cases "n \<in> set r")
    case True
    from step True have a: "redraw' u r (Suc j) (candidate u j) = Some z"
      by simp
    from a show ?thesis
      by (rule step.IH)
  next
    case False
    with step show ?thesis by simp
  qed
qed

lemma redraw_returns:
  "candidate uuid4 (i + d) \<notin> set rooms \<Longrightarrow> \<exists>y. redraw uuid4 rooms i name = Some y"
proof (induction d arbitrary: i name)
  case 0
  then have "redraw uuid4 rooms (Suc i) (candidate uuid4 i) = Some (candidate uuid4 i)"
    by (subst redraw.simps) simp
  then show ?case
    by (subst redraw.simps) simp
next
  case (Suc d)
  then have "\<exists>y. redraw uuid4 rooms (Suc i) (candidate uuid4 i) = Some y"
    by simp
  then show ?case
    by (subst redraw.simps) simp
qed

text \<open>
  C6. Whenever the registry answers and the allocator returns a name, that name is not
  among the names of the rooms it fetched, whatever the rooms and the identifiers drawn.
  The allocator does return as soon as one of the identifiers drawn gives a name that is
  not taken (with none, the loop of lines 25-26 runs forever).
\<close>

theorem generate_room_name_fresh:
  "list_rooms = Inr rooms \<Longrightarrow>
     (\<forall>name. generate_room_name uuid4 list_rooms = Some (Inr name) \<longrightarrow>
         name \<notin> set (map room_name rooms)) \<and>
     ((\<exists>k. candidate uuid4 k \<notin> set (map room_name rooms)) \<longrightarrow>
         (\<exists>name. generate_room_name uuid4 list_rooms = Some (Inr name)))"
proof (intro conjI allI impI)
  fix name
  assume "list_rooms = Inr rooms" "generate_room_name uuid4 list_rooms = Some (Inr name)"
  then have "redraw uuid4 (map room_name rooms) 1 (candidate uuid4 0) = Some name"
    by (auto simp: generate_room_name_def get_rooms_def)
  then show "name \<notin> set (map room_name rooms)"
    by (rule redraw_fresh)
next
  assume l: "list_rooms = Inr rooms"
  assume "\<exists>k. candidate uuid4 k \<notin> set (map room_name rooms)"
  then obtain k where k: "candidate uuid4 k \<notin> set (map room_name rooms)" ..
  have "\<exists>y. redraw uuid4 (map room_name rooms) 1 (candidate uuid4 0) = Some y"
  proof (cases k)
    case 0
    with k show ?thesis by (subst redraw.simps) simp
  next
    case (Suc d)
    with k have "candidate uuid4 (1 + d) \<notin> set (map room_name rooms)" by simp
    then show ?thesis by (rule redraw_returns)
  qed
  with l show "\<exists>name. generate_room_name uuid4 list_rooms = Some (Inr name)"
    by (auto simp: generate_room_name_def get_rooms_def)
qed

theorem generate_room_name_fresh_witness:
  "generate_room_name two_uuids (Inr [\<lparr>room_name = ''room-3f2a9c1e''\<rparr>, \<lparr>room_name = ''lobby''\<rparr>]) =
     Some (Inr ''room-b81d04aa'') \<and>
   ''room-b81d04aa'' \<notin> set (map room_name [\<lparr>room_name = ''room-3f2a9c1e''\<rparr>, \<lparr>room_name = ''lobby''\<rparr>])"
proof -
  let ?rooms = "[\<lparr>room_name = ''room-3f2a9c1e''\<rparr>, \<lparr>room_name = ''lobby''\<rparr>]"
  have g: "generate_room_name two_uuids (Inr ?rooms) = Some (Inr ''room-b81d04aa'')"
    by (simp add: generate_room_name_def get_rooms_def candidate_def two_uuids_def redraw.simps)
  from generate_room_name_fresh [OF refl, of two_uuids ?rooms, THEN conjunct1, rule_format, OF g] g
  show ?thesis by simp
qed

section \<open>Properties of the persistence bridge and of POST /save-conversation\<close>


lemma drive_events:
  "drive client store name company h = (r, store', evs) \<Longrightarrow>
     evs = [Write name company h] \<and> save_chat_history client store name company h = (r, store')"
  by (auto simp: drive_def split: prod.splits)

lemma acquire_loop_events:
  "acquire_loop env = (r, evs) \<Longrightarrow>
     evs = [] \<or> (evs = [NewLoop FirstAttempt, SetLoop FirstAttempt] \<and> r = Inr False)"
  by (auto simp: acquire_loop_def split: sum.splits option.splits if_splits)

lemma first_attempt_cases:
  assumes "first_attempt env client store name company h = (r, store', evs)"
  shows "(\<exists>pre. (pre = [] \<or> pre = [NewLoop FirstAttempt, SetLoop FirstAttempt]) \<and>
           ((evs = pre \<and> store' = store \<and> (\<exists>e. r = Inl e)) \<or>
            (evs = pre @ [Write name company h] \<and>
               save_chat_history client store name company h = (r, store')))) \<or>
         (evs = [PoolEnter, PoolExit] \<and> store' = store \<and> (\<exists>e. r = Inl e)) \<or>
         (evs = [PoolEnter, Write name company h, PoolExit] \<and>
            save_chat_history client store name company h = (r, store'))"
  using assms
  by (auto simp: first_attempt_def drive_def dest!: acquire_loop_events
        split: sum.splits option.splits if_splits prod.splits)


lemma bridge_cases:
  assumes "persistence_bridge env client store name company h = (r, store', evs)"
  shows "\<exists>r1 store1 evs1.
           first_attempt env client store name company h = (r1, store1, evs1) \<and>
           ((\<exists>result. r1 = Inr result \<and> r = r1 \<and> store' = store1 \<and> evs = evs1) \<or>
            (\<exists>e. r1 = Inl e) \<and>
              ((new_event_loop env Fallback \<noteq> None \<and> (\<exists>e. r = Inl e) \<and>
                  store' = store1 \<and> evs = evs1) \<or>
               (new_event_loop env Fallback = None \<and> sched_error env Fallback \<noteq> None \<and>
                  (\<exists>e. r = Inl e) \<and> store' = store1 \<and> evs = evs1 @ [NewLoop Fallback]) \<or>
               (new_event_loop env Fallback = None \<and> sched_error env Fallback = None \<and>
                  (\<exists>e. r = Inl e) \<and>
                  save_chat_history client store1 name company h = (r, store') \<and>
                  evs = evs1 @ [NewLoop Fallback, Write name company h]) \<or>
               (new_event_loop env Fallback = None \<and> sched_error env Fallback = None \<and>
                  (\<exists>result. r = Inr result) \<and>
                  save_chat_history client store1 name company h = (r, store') \<and>
                  evs = evs1 @ [NewLoop Fallback, Write name company h, CloseLoop Fallback])))"
  using assms
  by (auto simp: persistence_bridge_def drive_def
        split: sum.splits option.splits prod.splits)


lemma bridge_resources:
  assumes b: "persistence_bridge env client store name company h = (r, store', evs)"
  shows "count_list evs PoolExit = count_list evs PoolEnter \<and>
         count_list evs PoolEnter \<le> 1 \<and>
         count_list evs (SetLoop FirstAttempt) = count_list evs (NewLoop FirstAttempt) \<and>
         count_list evs (NewLoop FirstAttempt) \<le> 1 \<and>
         count_list evs (CloseLoop FirstAttempt) = 0 \<and>
         count_list evs (NewLoop Fallback) \<le> 1 \<and>
         count_list evs (CloseLoop Fallback) \<le> count_list evs (NewLoop Fallback) \<and>
         (\<forall>result. r = Inr result \<longrightarrow>
            count_list evs (CloseLoop Fallback) = count_list evs (NewLoop Fallback))"
proof -
  from bridge_cases [OF b] obtain r1 store1 evs1 where
    f: "first_attempt env client store name company h = (r1, store1, evs1)" and
    c: "(\<exists>result. r1 = Inr result \<and> r = r1 \<and> store' = store1 \<and> evs = evs1) \<or>
            (\<exists>e. r1 = Inl e) \<and>
              ((new_event_loop env Fallback \<noteq> None \<and> (\<exists>e. r = Inl e) \<and>
                  store' = store1 \<and> evs = evs1) \<or>
               (new_event_loop env Fallback = None \<and> sched_error env Fallback \<noteq> None \<and>
                  (\<exists>e. r = Inl e) \<and> store' = store1 \<and> evs = evs1 @ [NewLoop Fallback]) \<or>
               (new_event_loop env Fallback = None \<and> sched_error env Fallback = None \<and>
                  (\<exists>e. r = Inl e) \<and>
                  save_chat_history client store1 name company h = (r, store') \<and>
                  evs = evs1 @ [NewLoop Fallback, Write name company h]) \<or>
               (new_event_loop env Fallback = None \<and> sched_error env Fallback = None \<and>
                  (\<exists>result. r = Inr result) \<and>
                  save_chat_history client store1 name company h = (r, store') \<and>
                  evs = evs1 @ [NewLoop Fallback, Write name company h, CloseLoop Fallback]))"
    by blast
  have e1: "evs1 = [] \<or> evs1 = [NewLoop FirstAttempt, SetLoop FirstAttempt] \<or>
            evs1 = [Write name company h] \<or>
            evs1 = [NewLoop FirstAttempt, SetLoop FirstAttempt, Write name company h] \<or>
            evs1 = [PoolEnter, PoolExit] \<or> evs1 = [PoolEnter, Write name company h, PoolExit]"
    using first_attempt_cases [OF f] by auto
  from c have e2: "evs = evs1 \<and> (\<forall>result. r \<noteq> Inr result \<or> True) \<or>
     evs = evs1 @ [NewLoop Fallback] \<and> (\<exists>e. r = Inl e) \<or>
     evs = evs1 @ [NewLoop Fallback, Write name company h] \<and> (\<exists>e. r = Inl e) \<or>
     evs = evs1 @ [NewLoop Fallback, Write name company h, CloseLoop Fallback]"
    by auto
  from e1 e2 show ?thesis
    by (elim disjE conjE exE) simp_all
qed




text \<open>
  C1. The claim is right and the code breaks it. The handler of lines 293-304 is written
  for a failure of the scheduling (it names the exception \<^verbatim>\<open>loop_error\<close>, logs
  \<^verbatim>\<open>Event loop error\<close> and is commented \<^verbatim>\<open>Fallback: create fresh loop\<close>), but its \<^verbatim>\<open>try\<close>
  also encloses the write, so an exception of the write itself is caught and the write is
  driven a second time. In a request thread with no current loop and a storage whose
  first write raises, the view drives the write twice and answers 200; the sibling view
  \<^verbatim>\<open>save_chat\<close> drives it once on the same storage.
\<close>

theorem save_conversation_double_write:
  "save_chat_history flaky_client 0 (JStr ''Alice'') (JStr ''Acme'') two_messages =
     (Inl (PyExn OtherException ''connection reset''), 1) \<and>
   save_conversation no_loop_env alice_extractor (Inr flaky_client) 0 (Inr conversation_request) =
     (respond 200 (SaveConversationOk (JStr ''Alice'') (JStr ''Acme'') 2 (JInt 1)), 2,
      [NewLoop FirstAttempt, SetLoop FirstAttempt,
       Write (JStr ''Alice'') (JStr ''Acme'') two_messages,
       NewLoop Fallback,
       Write (JStr ''Alice'') (JStr ''Acme'') two_messages,
       CloseLoop Fallback]) \<and>
   length (writes (snd (snd (save_conversation no_loop_env alice_extractor (Inr flaky_client) 0
       (Inr conversation_request))))) = 2 \<and>
   snd (snd (save_chat (Inr flaky_client) 0
       (Inr (JObj [(''name'', JStr ''Alice''), (''company_name'', JStr ''Acme''),
                   (''chat_history'', two_messages)])))) =
     [(JStr ''Alice'', JStr ''Acme'', two_messages)]"
  by (simp add: save_conversation_def persistence_bridge_def first_attempt_def acquire_loop_def
        drive_def no_loop_env_def flaky_client_def alice_extractor_def conversation_request_def
        two_messages_def respond_def save_chat_def)

text \<open>
  C8, as stated, fails: in a request thread with no current loop the bridge creates a loop
  at line 268, installs it as the current loop of the thread and never closes it; the
  view answers 200 with that loop still open.
\<close>

theorem save_conversation_open_loop_counterexample:
  "save_conversation no_loop_env alice_extractor (Inr memory_client) [] (Inr conversation_request) =
     (respond 200 (SaveConversationOk (JStr ''Alice'') (JStr ''Acme'') 2 (JInt 1)),
      [JObj [(''name'', JStr ''Alice''), (''company_name'', JStr ''Acme''),
             (''chat_history'', two_messages)]],
      [NewLoop FirstAttempt, SetLoop FirstAttempt,
       Write (JStr ''Alice'') (JStr ''Acme'') two_messages]) \<and>
   count_list (snd (snd (save_conversation no_loop_env alice_extractor (Inr memory_client) []
       (Inr conversation_request)))) (NewLoop FirstAttempt) = 1 \<and>
   count_list (snd (snd (save_conversation no_loop_env alice_extractor (Inr memory_client) []
       (Inr conversation_request)))) (CloseLoop FirstAttempt) = 0"
  by (simp add: save_conversation_def persistence_bridge_def first_attempt_def acquire_loop_def
        drive_def no_loop_env_def memory_client_def alice_extractor_def conversation_request_def
        two_messages_def respond_def)

text \<open>
  C8, amended. The worker executor is left exactly once whenever it is entered, on every
  exit path. The loop the bridge creates when there is no usable loop is installed as the
  current loop of the thread and is not closed by the bridge. The fallback creates at most
  one loop, closes it at most once, and has closed it whenever the bridge returns a
  result.
\<close>

theorem persistence_bridge_resources:
  "persistence_bridge env client store name company h = (r, store', evs) \<Longrightarrow>
     count_list evs PoolExit = count_list evs PoolEnter \<and>
     count_list evs PoolEnter \<le> 1 \<and>
     count_list evs (SetLoop FirstAttempt) = count_list evs (NewLoop FirstAttempt) \<and>
     count_list evs (CloseLoop FirstAttempt) = 0 \<and>
     count_list evs (NewLoop Fallback) \<le> 1 \<and>
     count_list evs (CloseLoop Fallback) \<le> count_list evs (NewLoop Fallback) \<and>
     (\<forall>result. r = Inr result \<longrightarrow>
        count_list evs (CloseLoop Fallback) = count_list evs (NewLoop Fallback))"
  using bridge_resources [of env client store name company h r store' evs] by simp

theorem persistence_bridge_resources_witness:
  "persistence_bridge running_loop_env memory_client [] (JStr ''Alice'') (JStr ''Acme'') two_messages =
     (Inr (JObj [(''id'', JInt 1)]),
      [JObj [(''name'', JStr ''Alice''), (''company_name'', JStr ''Acme''),
             (''chat_history'', two_messages)]],
      [PoolEnter, Write (JStr ''Alice'') (JStr ''Acme'') two_messages, PoolExit]) \<and>
   count_list [PoolEnter, Write (JStr ''Alice'') (JStr ''Acme'') two_messages, PoolExit] PoolExit =
     count_list [PoolEnter, Write (JStr ''Alice'') (JStr ''Acme'') two_messages, PoolExit] PoolEnter \<and>
   count_list [PoolEnter, Write (JStr ''Alice'') (JStr ''Acme'') two_messages, PoolExit]
     (CloseLoop Fallback) =
   count_list [PoolEnter, Write (JStr ''Alice'') (JStr ''Acme'') two_messages, PoolExit]
     (NewLoop Fallback)"
proof -
  have run: "persistence_bridge running_loop_env memory_client [] (JStr ''Alice'') (JStr ''Acme'')
       two_messages =
     (Inr (JObj [(''id'', JInt 1)]),
      [JObj [(''name'', JStr ''Alice''), (''company_name'', JStr ''Acme''),
             (''chat_history'', two_messages)]],
      [PoolEnter, Write (JStr ''Alice'') (JStr ''Acme'') two_messages, PoolExit])"
    by (simp add: persistence_bridge_def first_attempt_def acquire_loop_def drive_def
          running_loop_env_def memory_client_def)
  note res = persistence_bridge_resources [OF run]
  from res [THEN conjunct1]
       res [THEN conjunct2, THEN conjunct2, THEN conjunct2, THEN conjunct2, THEN conjunct2,
            THEN conjunct2, rule_format, OF refl] run
  show ?thesis by (intro conjI)
qed

text \<open>
  C7. The claim holds of the sibling view \<^verbatim>\<open>save_chat\<close>, which tests \<^verbatim>\<open>"error" in result\<close>
  (lines 92-94), and fails of \<^verbatim>\<open>save_conversation\<close>, which does not look at the result
  beyond its \<^verbatim>\<open>id\<close> (line 313): when the storage collaborator stores nothing and reports
  the failure in its result, the view answers 200 with \<open>success\<close> and a null record id,
  where \<^verbatim>\<open>save_chat\<close> answers 500 to the same collaborator.
\<close>

theorem save_conversation_reported_error:
  "save_chat_history rejecting_client [] (JStr ''Alice'') (JStr ''Acme'') two_messages =
     (Inr (JObj [(''error'', JStr ''insert failed'')]), []) \<and>
   save_conversation no_loop_env alice_extractor (Inr rejecting_client) [] (Inr conversation_request) =
     (respond 200 (SaveConversationOk (JStr ''Alice'') (JStr ''Acme'') 2 JNull), [],
      [NewLoop FirstAttempt, SetLoop FirstAttempt,
       Write (JStr ''Alice'') (JStr ''Acme'') two_messages]) \<and>
   success (body (fst (save_conversation no_loop_env alice_extractor (Inr rejecting_client) []
       (Inr conversation_request)))) \<and>
   fst (save_chat (Inr rejecting_client) []
       (Inr (JObj [(''name'', JStr ''Alice''), (''company_name'', JStr ''Acme''),
                   (''chat_history'', two_messages)]))) =
     respond 500 (ErrorBody (JStr ''insert failed''))"
  by (simp add: save_conversation_def persistence_bridge_def first_attempt_def acquire_loop_def
        drive_def no_loop_env_def rejecting_client_def alice_extractor_def conversation_request_def
        two_messages_def respond_def save_chat_def)









section \<open>Properties of the entity extraction\<close>

text \<open>
  C4, as stated, fails: when the completion text decodes to an object that has a name but
  no company, the view returns the name and defaults the company alone.
\<close>

theorem extract_client_info_missing_field_counterexample:
  \<open>ascii_strip ''{"name": "Alice"}'' = ''{"name": "Alice"}'' \<and>
   decode_fixture ''{"name": "Alice"}'' = Inr (JObj [(''name'', JStr ''Alice'')]) \<and>
   extract_client_info (completion_with ''{"name": "Alice"}'') ascii_strip decode_fixture
       (Inr conversation_request) =
     respond 200 (ExtractOk (JStr ''Alice'') (JStr ''Unknown''))\<close>
  by (simp add: extract_client_info_def conversation_request_def two_messages_def
        completion_with_def result_text_def ascii_strip_def is_space_def parse_extracted_def
        decode_fixture_def)

text \<open>
  C4, amended. When the decoder rejects a text, or decodes it to a value that is not an
  object, the parse step of \<^verbatim>\<open>extract_client_info\<close> gives \<open>Unknown\<close> for both fields. When
  the text decodes to an object, each field is taken from the object and defaults to
  \<open>Unknown\<close> on its own when it is missing. Whenever the first choice of the completion
  carries a text \<open>t\<close>, the view answers 200 with the parse of \<open>t\<close> stripped by
  \<^verbatim>\<open>str.strip\<close>: nothing the parse step raises reaches the caller.
\<close>

theorem parse_fallback:
  "(\<forall>e. json_loads text = Inl e \<longrightarrow>
      parse_extracted json_loads text = (JStr ''Unknown'', JStr ''Unknown'')) \<and>
   (\<forall>v. json_loads text = Inr v \<and> (\<forall>kvs. v \<noteq> JObj kvs) \<longrightarrow>
      parse_extracted json_loads text = (JStr ''Unknown'', JStr ''Unknown'')) \<and>
   (\<forall>kvs. json_loads text = Inr (JObj kvs) \<longrightarrow>
      parse_extracted json_loads text =
        (case map_of kvs ''name'' of None \<Rightarrow> JStr ''Unknown'' | Some v \<Rightarrow> v,
         case map_of kvs ''company'' of None \<Rightarrow> JStr ''Unknown'' | Some v \<Rightarrow> v)) \<and>
   (\<forall>data h msgs conversation t rest.
      get_json = Inr data \<and> py_get data ''chat_history'' JNull = Inr h \<and> py_truthy h \<and>
      py_iter h = Inr msgs \<and> conversation_text msgs = Inr conversation \<and>
      create_completion conversation = Inr (Some t # rest) \<longrightarrow>
      extract_client_info create_completion py_strip json_loads get_json =
        respond 200 (ExtractOk (fst (parse_extracted json_loads (py_strip t)))
                               (snd (parse_extracted json_loads (py_strip t)))))"
proof (intro conjI allI impI)
  fix e assume "json_loads text = Inl e"
  then show "parse_extracted json_loads text = (JStr ''Unknown'', JStr ''Unknown'')"
    by (simp add: parse_extracted_def)
next
  fix v assume "json_loads text = Inr v \<and> (\<forall>kvs. v \<noteq> JObj kvs)"
  then show "parse_extracted json_loads text = (JStr ''Unknown'', JStr ''Unknown'')"
    by (cases v) (simp_all add: parse_extracted_def)
next
  fix kvs assume "json_loads text = Inr (JObj kvs)"
  then show "parse_extracted json_loads text =
        (case map_of kvs ''name'' of None \<Rightarrow> JStr ''Unknown'' | Some v \<Rightarrow> v,
         case map_of kvs ''company'' of None \<Rightarrow> JStr ''Unknown'' | Some v \<Rightarrow> v)"
    by (simp add: parse_extracted_def)
next
  fix data h msgs conversation t rest
  assume a: "get_json = Inr data \<and> py_get data ''chat_history'' JNull = Inr h \<and> py_truthy h \<and>
      py_iter h = Inr msgs \<and> conversation_text msgs = Inr conversation \<and>
      create_completion conversation = Inr (Some t # rest)"
  then obtain kvs where d: "data = JObj kvs"
    by (cases data) auto
  with a have "kvs \<noteq> []" by auto
  with a d show "extract_client_info create_completion py_strip json_loads get_json =
        respond 200 (ExtractOk (fst (parse_extracted json_loads (py_strip t)))
                               (snd (parse_extracted json_loads (py_strip t))))"
    by (simp add: extract_client_info_def result_text_def split: prod.splits)
qed

theorem parse_fallback_witness:
  "ascii_strip ''Sorry, I cannot tell.'' = ''Sorry, I cannot tell.'' \<and>
   decode_fixture ''Sorry, I cannot tell.'' = Inl (PyExn ValueError ''Expecting value'') \<and>
   extract_client_info (completion_with ''Sorry, I cannot tell.'') ascii_strip decode_fixture
       (Inr conversation_request) =
     respond 200 (ExtractOk (JStr ''Unknown'') (JStr ''Unknown''))"
proof -
  let ?text = "''Sorry, I cannot tell.''"
  let ?conv = "[(JStr ''User'', JStr ''My name is Alice, I work at Acme''),
                (JStr ''Agent'', JStr ''Welcome, Alice'')]"
  have st: "ascii_strip ?text = ?text"
    by (simp add: ascii_strip_def is_space_def)
  have d: "decode_fixture ?text = Inl (PyExn ValueError ''Expecting value'')"
    by (simp add: decode_fixture_def)
  have path: "(Inr conversation_request :: py_exn + json) = Inr conversation_request \<and>
      py_get conversation_request ''chat_history'' JNull = Inr two_messages \<and>
      py_truthy two_messages \<and>
      py_iter two_messages = Inr [JObj [(''speaker'', JStr ''User''),
                                        (''message'', JStr ''My name is Alice, I work at Acme'')],
                                  JObj [(''speaker'', JStr ''Agent''),
                                        (''message'', JStr ''Welcome, Alice'')]] \<and>
      conversation_text [JObj [(''speaker'', JStr ''User''),
                               (''message'', JStr ''My name is Alice, I work at Acme'')],
                         JObj [(''speaker'', JStr ''Agent''),
                               (''message'', JStr ''Welcome, Alice'')]] = Inr ?conv \<and>
      completion_with ?text ?conv = Inr (Some ?text # [])"
    by (simp add: conversation_request_def two_messages_def completion_with_def)
  note p = parse_fallback [of decode_fixture ?text, THEN conjunct1, rule_format, OF d]
  note e = parse_fallback [of decode_fixture ?text "Inr conversation_request"
      "completion_with ?text" ascii_strip,
      THEN conjunct2, THEN conjunct2, THEN conjunct2, rule_format, OF path]
  from st d e p show ?thesis by simp
qed






end
